theory Spec2Isabelle
  imports Complex_Main
begin

section \<open>JavaScript values as the request handlers see them\<close>

text \<open>
  \<^verbatim>\<open>backend-server.js\<close> is an Express application with two routes. Its handlers work on
  values that came out of \<^verbatim>\<open>JSON.parse\<close> (the request body decoded by
  \<^verbatim>\<open>express.json()\<close>, the upstream body decoded by \<^verbatim>\<open>response.json()\<close>), and on
  \<^verbatim>\<open>undefined\<close>, which a read of a missing property yields. A number is modelled by its
  mathematical value (the handlers only ever test one for being zero), text by a list of
  characters, with the UTF-8 bytes of a character outside ASCII. An object is the list
  of its own properties in insertion order.
\<close>

datatype jsval =
    JUndefined
  | JNull
  | JBool bool
  | JNum rat
  | JStr string
  | JArr "jsval list"
  | JObj "(string \<times> jsval) list"

text \<open>A thrown \<^verbatim>\<open>Error\<close>: its constructor's name and its \<^verbatim>\<open>message\<close>.\<close>

datatype js_error = JsError (name: string) (message: string)

text \<open>\<^verbatim>\<open>!!v\<close>: the values that count as true in \<^verbatim>\<open>!v\<close> and \<^verbatim>\<open>v || w\<close>.\<close>

fun truthy :: "jsval \<Rightarrow> bool" where
  "truthy JUndefined = False"
| "truthy JNull = False"
| "truthy (JBool b) = b"
| "truthy (JNum n) = (n \<noteq> 0)"
| "truthy (JStr s) = (s \<noteq> [])"
| "truthy (JArr xs) = True"
| "truthy (JObj kvs) = True"

text \<open>\<^verbatim>\<open>a || b\<close>.\<close>

definition js_or :: "jsval \<Rightarrow> jsval \<Rightarrow> jsval" where
  "js_or a b = (if truthy a then a else b)"

text \<open>
  An array index is a property key in canonical decimal form: digits only, no leading
  zero except for \<^verbatim>\<open>"0"\<close> itself.
\<close>

fun decimal :: "nat \<Rightarrow> string \<Rightarrow> nat option" where
  "decimal acc [] = Some acc"
| "decimal acc (c # cs) =
     (let d = (of_char c :: nat) in
      if 48 \<le> d \<and> d \<le> 57 then decimal (10 * acc + (d - 48)) cs else None)"

definition array_index :: "string \<Rightarrow> nat option" where
  "array_index p =
     (case p of
        [] \<Rightarrow> None
      | c # cs \<Rightarrow> if c = CHR ''0'' \<and> cs \<noteq> [] then None else decimal 0 p)"

text \<open>
  Node reports a property read on \<^verbatim>\<open>undefined\<close> or \<^verbatim>\<open>null\<close> with a
  \<^verbatim>\<open>TypeError\<close> carrying this message.
\<close>

definition cannot_read :: "string \<Rightarrow> string \<Rightarrow> js_error" where
  "cannot_read base p =
     JsError ''TypeError''
       (''Cannot read properties of '' @ base @ '' (reading '' @ [CHR 0x27] @ p @ [CHR 0x27] @ '')'')"

text \<open>
  \<^verbatim>\<open>v.p\<close> and \<^verbatim>\<open>v[p]\<close>: an own property of an object, an element or the length of an
  array or a string, \<^verbatim>\<open>undefined\<close> for a key that is not there, and a
  \<^verbatim>\<open>TypeError\<close> on \<^verbatim>\<open>undefined\<close> and \<^verbatim>\<open>null\<close>. (The members inherited from the
  built-in prototypes are methods, which no handler reads.)
\<close>

fun get_prop :: "jsval \<Rightarrow> string \<Rightarrow> js_error + jsval" where
  "get_prop JUndefined p = Inl (cannot_read ''undefined'' p)"
| "get_prop JNull p = Inl (cannot_read ''null'' p)"
| "get_prop (JObj kvs) p =
     Inr (case map_of kvs p of Some v \<Rightarrow> v | None \<Rightarrow> JUndefined)"
| "get_prop (JArr xs) p =
     Inr (if p = ''length'' then JNum (of_nat (length xs))
          else case array_index p of
                 Some i \<Rightarrow> if i < length xs then xs ! i else JUndefined
               | None \<Rightarrow> JUndefined)"
| "get_prop (JStr s) p =
     Inr (if p = ''length'' then JNum (of_nat (length s))
          else case array_index p of
                 Some i \<Rightarrow> if i < length s then JStr [s ! i] else JUndefined
               | None \<Rightarrow> JUndefined)"
| "get_prop (JBool b) p = Inr JUndefined"
| "get_prop (JNum n) p = Inr JUndefined"

text \<open>\<^verbatim>\<open>v?.p\<close>: \<^verbatim>\<open>undefined\<close> when \<^verbatim>\<open>v\<close> is \<^verbatim>\<open>undefined\<close> or \<^verbatim>\<open>null\<close>.\<close>

definition get_prop_opt :: "jsval \<Rightarrow> string \<Rightarrow> js_error + jsval" where
  "get_prop_opt v p = (if v = JUndefined \<or> v = JNull then Inr JUndefined else get_prop v p)"

section \<open>The language runtime and the upstream\<close>

text \<open>
  \<^verbatim>\<open>JSON.stringify\<close> and \<^verbatim>\<open>JSON.parse\<close> are built into the language, not part of
  the repository: the handlers take them as given. \<^verbatim>\<open>JSON.parse\<close> converts its
  argument to text first, so it accepts any value, and throws a \<^verbatim>\<open>SyntaxError\<close> on
  text that is not JSON.
\<close>

record runtime =
  JSON_stringify :: "jsval \<Rightarrow> jsval"
  JSON_parse :: "jsval \<Rightarrow> js_error + jsval"
  initial_body :: jsval

text \<open>
  \<open>initial_body\<close> is \<^verbatim>\<open>req.body\<close> as Express hands it to a handler when the body parser
  has left the request alone: the empty object in Express 4, \<^verbatim>\<open>undefined\<close> in Express 5.
\<close>

text \<open>The argument of \<^verbatim>\<open>fetch\<close>.\<close>

record http_request =
  url :: string
  "method" :: string
  headers :: "(string \<times> string) list"
  body :: jsval

text \<open>
  What \<^verbatim>\<open>fetch\<close> resolves to: the upstream's status, and what awaiting
  \<^verbatim>\<open>response.json()\<close> gives, the decoded body or the error it rejects with when the
  body is not JSON.
\<close>

record fetch_response =
  status :: nat
  json :: "js_error + jsval"

text \<open>\<^verbatim>\<open>response.ok\<close>: the status is in the range 200 to 299.\<close>

definition ok :: "fetch_response \<Rightarrow> bool" where
  "ok response = (200 \<le> status response \<and> status response < 300)"

text \<open>\<^verbatim>\<open>await fetch(...)\<close> either throws (no connection, for one) or yields a response.\<close>

datatype fetch_outcome = Rejected js_error | Resolved fetch_response

text \<open>What a handler hands to \<^verbatim>\<open>res\<close>: \<^verbatim>\<open>res.status(code).json(payload)\<close>.\<close>

record http_reply =
  status_code :: nat
  payload :: jsval

text \<open>
  The lines a run writes with \<^verbatim>\<open>console.log\<close> and \<^verbatim>\<open>console.error\<close>, each with the
  value it prints after its fixed text. The last one is Express's: its default error
  handler logs the error of a request it answers with an error page.
\<close>

datatype console_line =
    KeyNotSet
  | CreateEnvFile
  | Banner jsval
  | ReceivedRequest
  | UserData jsval
  | UpstreamStatus nat
  | UpstreamError jsval
  | UpstreamSuccess
  | StoryGenerated
  | ServerError js_error
  | ErrorLogged nat

section \<open>Module level: configuration and the system prompt\<close>

text \<open>The two bindings the module keeps once it has started; both are \<^verbatim>\<open>const\<close>.\<close>

record server =
  PORT :: jsval
  ANTHROPIC_API_KEY :: string

definition e_acute :: string where
  "e_acute = [CHR 0xC3, CHR 0xA9]"

definition em_dash :: string where
  "em_dash = [CHR 0xE2, CHR 0x80, CHR 0x94]"

text \<open>The lines of a template literal, joined by the line breaks between them.\<close>

fun template_literal :: "string list \<Rightarrow> string" where
  "template_literal [] = []"
| "template_literal [l] = l"
| "template_literal (l # ls) = l @ CHR 0x0A # template_literal ls"

definition SYSTEM_PROMPT :: string where
  \<open>SYSTEM_PROMPT = template_literal [
     ''System Prompt: Phish Narrative Intelligence Engine'',
     ''You are a Phish performance and attendance analyst, not a fan chatbot and not a hype generator.'',
     ''Your job is to interpret a single user's longitudinal Phish attendance and setlist data and produce clear, grounded narrative insights that explain patterns, shifts, and tendencies in their history.'',
     '''',
     ''Core Principles (Non-Negotiable)'',
     ''* You analyze patterns, not moments'',
     ''* You explain why trends emerged, not just what happened'',
     ''* You avoid exaggeration, nostalgia bait, or fan clich'' @ e_acute @ ''s'',
     ''* You never speculate beyond the data provided'',
     ''* You never rank the user against others unless explicitly instructed'',
     ''* You do not use emojis, slang, or hype language'',
     ''* You do not moralize taste ("good", "bad", "better")'',
     ''* You never invent events, songs, or motivations'',
     '''',
     ''You are calm, analytical, and observant '' @ em_dash @ '' like a music historian reviewing a personal archive.'',
     '''',
     ''Your Output Objective'',
     ''Produce a personalized narrative summary titled "Your Phish Story"'',
     '''',
     ''Required Output Structure'',
     ''Your response must contain exactly 5 sections, in this order:'',
     '''',
     ''1. Overall Arc'',
     ''2. Musical Tendencies'',
     ''3. Era Shifts & Inflection Points'',
     ''4. Venue & Geography Patterns'',
     ''5. What Makes This History Distinct'',
     '''',
     ''Return ONLY a JSON object with this exact structure:'',
     ''{'',
     ''  "title": "Your Phish Story",'',
     ''  "overall_arc": {'',
     ''    "summary": "...",'',
     ''    "confidence": "high|medium|low"'',
     ''  },'',
     ''  "musical_tendencies": {'',
     ''    "summary": "...",'',
     ''    "confidence": "high|medium|low"'',
     ''  },'',
     ''  "era_shifts": {'',
     ''    "summary": "...",'',
     ''    "confidence": "high|medium|low"'',
     ''  },'',
     ''  "venue_geography": {'',
     ''    "summary": "...",'',
     ''    "confidence": "high|medium|low"'',
     ''  },'',
     ''  "distinctive_signature": {'',
     ''    "summary": "...",'',
     ''    "confidence": "high|medium|low"'',
     ''  }'',
     ''}''
   ]\<close>

section \<open>Start-up\<close>

text \<open>
  The module reads \<^verbatim>\<open>process.env\<close> (after \<^verbatim>\<open>dotenv\<close> has filled it in) and stops with
  \<^verbatim>\<open>process.exit(1)\<close> when the key is falsy, that is absent or empty. Only a process
  that gets past this check reaches \<^verbatim>\<open>app.listen(PORT, ...)\<close>.
\<close>

datatype process =
    Exited nat "console_line list"
  | Listening server "console_line list"

definition env_var :: "(string \<rightharpoonup> string) \<Rightarrow> string \<Rightarrow> jsval" where
  "env_var process_env v = (case process_env v of None \<Rightarrow> JUndefined | Some s \<Rightarrow> JStr s)"

definition main :: "(string \<rightharpoonup> string) \<Rightarrow> process" where
  "main process_env =
     (let port = js_or (env_var process_env ''PORT'') (JNum 3001);
          key = env_var process_env ''ANTHROPIC_API_KEY''
      in if \<not> truthy key then Exited 1 [KeyNotSet, CreateEnvFile]
         else Listening \<lparr>PORT = port,
                          ANTHROPIC_API_KEY = (case key of JStr k \<Rightarrow> k | _ \<Rightarrow> [])\<rparr>
                [Banner port])"

section \<open>The JSON body parser\<close>

text \<open>
  \<^verbatim>\<open>app.use(express.json())\<close> puts the JSON body parser in front of every route, with
  its defaults. A request reaches it in one of three ways: its body could not be read
  (too large, an unsupported charset or encoding, an aborted upload), and the reader has
  already settled the status; it has no body, or a content type other than
  \<^verbatim>\<open>application/json\<close>, and the parser skips it; or its body was read as JSON text.
\<close>

datatype arrival =
    Unread nat
  | NoJsonBody
  | JsonText string

text \<open>The first character of the text after blanks, tabs and line breaks.\<close>

definition firstchar :: "string \<Rightarrow> char option" where
  "firstchar text =
     (case dropWhile (\<lambda>c. c \<in> set [CHR 0x20, CHR 0x09, CHR 0x0A, CHR 0x0D]) text of
        [] \<Rightarrow> None
      | c # cs \<Rightarrow> Some c)"

text \<open>
  The parser in its default, strict mode: an empty text stands for the empty object; a
  text that does not start with a brace or a bracket is refused, and so is one that
  \<^verbatim>\<open>JSON.parse\<close> rejects, both with status 400. What it accepts becomes
  \<^verbatim>\<open>req.body\<close>; what it refuses never reaches a handler.
\<close>

fun express_json :: "runtime \<Rightarrow> arrival \<Rightarrow> nat + jsval" where
  "express_json rt (Unread code) = Inl code"
| "express_json rt NoJsonBody = Inr (initial_body rt)"
| "express_json rt (JsonText text) =
     (if text = [] then Inr (JObj [])
      else if firstchar text = Some CHR 0x7B \<or> firstchar text = Some CHR 0x5B
        then (case JSON_parse rt (JStr text) of
                Inl e \<Rightarrow> Inl 400
              | Inr v \<Rightarrow> Inr v)
      else Inl 400)"

section \<open>POST /api/generate-story\<close>

text \<open>The object that becomes the body of the upstream call.\<close>

definition chat_payload :: "jsval \<Rightarrow> jsval" where
  "chat_payload content =
     JObj [(''model'', JStr ''claude-sonnet-4-20250514''),
           (''max_tokens'', JNum 2000),
           (''system'', JStr SYSTEM_PROMPT),
           (''messages'', JArr [JObj [(''role'', JStr ''user''), (''content'', content)]])]"

definition story_request :: "runtime \<Rightarrow> server \<Rightarrow> jsval \<Rightarrow> http_request" where
  "story_request rt srv req_body =
     \<lparr>url = ''https://api.anthropic.com/v1/messages'',
      method = ''POST'',
      headers = [(''Content-Type'', ''application/json''),
                 (''x-api-key'', ANTHROPIC_API_KEY srv),
                 (''anthropic-version'', ''2023-06-01'')],
      body = JSON_stringify rt (chat_payload (JSON_stringify rt req_body))\<rparr>"

text \<open>\<^verbatim>\<open>errorData.error?.message || 'Claude API request failed'\<close>\<close>

definition upstream_error_message :: "jsval \<Rightarrow> js_error + jsval" where
  "upstream_error_message errorData =
     (case get_prop errorData ''error'' of
        Inl e \<Rightarrow> Inl e
      | Inr err \<Rightarrow>
          (case get_prop_opt err ''message'' of
             Inl e \<Rightarrow> Inl e
           | Inr m \<Rightarrow> Inr (js_or m (JStr ''Claude API request failed''))))"

text \<open>\<^verbatim>\<open>data.content[0].text\<close>\<close>

definition first_block_text :: "jsval \<Rightarrow> js_error + jsval" where
  "first_block_text data =
     (case get_prop data ''content'' of
        Inl e \<Rightarrow> Inl e
      | Inr content \<Rightarrow>
          (case get_prop content ''0'' of
             Inl e \<Rightarrow> Inl e
           | Inr block \<Rightarrow> get_prop block ''text''))"

text \<open>
  The two statements that turn the decoded upstream body into the story:
  \<^verbatim>\<open>storyText = data.content[0].text; storyJSON = JSON.parse(storyText)\<close>.
\<close>

definition parse_story :: "runtime \<Rightarrow> jsval \<Rightarrow> js_error + jsval" where
  "parse_story rt data =
     (case first_block_text data of
        Inl e \<Rightarrow> Inl e
      | Inr storyText \<Rightarrow> JSON_parse rt storyText)"

text \<open>What one call of a handler did: the lines it logged, the calls it made, its reply.\<close>

record handled =
  console :: "console_line list"
  fetched :: "http_request list"
  reply :: http_reply

text \<open>The \<^verbatim>\<open>catch\<close> block: status 500 with \<^verbatim>\<open>error.message || 'Internal server error'\<close>.\<close>

definition caught :: "console_line list \<Rightarrow> http_request list \<Rightarrow> js_error \<Rightarrow> handled" where
  "caught logged calls e =
     \<lparr>console = logged @ [ServerError e],
      fetched = calls,
      reply = \<lparr>status_code = 500,
               payload = JObj [(''error'',
                 js_or (JStr (message e)) (JStr ''Internal server error''))]\<rparr>\<rparr>"

text \<open>
  The handler. \<open>fetch\<close> is the upstream as this call meets it: what the one call of
  \<^verbatim>\<open>fetch\<close> comes back with, the library's own checks of the request included. A reply
  without \<^verbatim>\<open>res.status\<close> goes out with Express's default status, 200.
\<close>

definition generate_story ::
    "runtime \<Rightarrow> server \<Rightarrow> (http_request \<Rightarrow> fetch_outcome) \<Rightarrow> jsval \<Rightarrow> handled" where
  "generate_story rt srv fetch req_body =
     (let logged = [ReceivedRequest, UserData req_body];
          request = story_request rt srv req_body
      in case fetch request of
           Rejected e \<Rightarrow> caught logged [request] e
         | Resolved response \<Rightarrow>
             (let logged = logged @ [UpstreamStatus (status response)] in
              if \<not> ok response then
                (case json response of
                   Inl e \<Rightarrow> caught logged [request] e
                 | Inr errorData \<Rightarrow>
                     (let logged = logged @ [UpstreamError errorData] in
                      case upstream_error_message errorData of
                        Inl e \<Rightarrow> caught logged [request] e
                      | Inr m \<Rightarrow>
                          \<lparr>console = logged,
                           fetched = [request],
                           reply = \<lparr>status_code = status response,
                                    payload = JObj [(''error'', m)]\<rparr>\<rparr>))
              else
                (case json response of
                   Inl e \<Rightarrow> caught logged [request] e
                 | Inr data \<Rightarrow>
                     (let logged = logged @ [UpstreamSuccess] in
                      case parse_story rt data of
                        Inl e \<Rightarrow> caught logged [request] e
                      | Inr storyJSON \<Rightarrow>
                          \<lparr>console = logged @ [StoryGenerated],
                           fetched = [request],
                           reply = \<lparr>status_code = 200, payload = storyJSON\<rparr>\<rparr>))))"

section \<open>GET /health\<close>

definition health :: "server \<Rightarrow> handled" where
  "health srv =
     \<lparr>console = [],
      fetched = [],
      reply = \<lparr>status_code = 200,
               payload = JObj [(''status'', JStr ''ok''),
                               (''message'', JStr ''Phish Story Backend is running!'')]\<rparr>\<rparr>"

section \<open>The routes behind the body parser\<close>

text \<open>
  What the caller gets: the outcome of a handler, or Express's error page with the
  status the body parser settled on (an HTML page, not a JSON object), in which case no
  handler ran.
\<close>

datatype answer =
    ErrorPage nat
  | Handled handled



text \<open>The story route as a caller meets it: the body parser, then the handler.\<close>

definition api_generate_story ::
    "runtime \<Rightarrow> server \<Rightarrow> (http_request \<Rightarrow> fetch_outcome) \<Rightarrow> arrival \<Rightarrow> answer" where
  "api_generate_story rt srv fetch arrived =
     (case express_json rt arrived of
        Inl code \<Rightarrow> ErrorPage code
      | Inr req_body \<Rightarrow> Handled (generate_story rt srv fetch req_body))"


section \<open>The server over a sequence of requests\<close>

text \<open>
  A request is one of the two routes; a call of the story route comes with its body as
  it arrives and with the upstream as that call meets it. No handler assigns to a
  module-level binding, so the server a request leaves behind is the one it found.
\<close>

datatype incoming =
    PostGenerateStory arrival "http_request \<Rightarrow> fetch_outcome"
  | GetHealth

fun dispatch :: "runtime \<Rightarrow> server \<Rightarrow> incoming \<Rightarrow> server \<times> answer" where
  "dispatch rt srv (PostGenerateStory arrived fetch) =
     (srv, api_generate_story rt srv fetch arrived)"
| "dispatch rt srv GetHealth = (srv, Handled (health srv))"

fun serve :: "runtime \<Rightarrow> server \<Rightarrow> incoming list \<Rightarrow> answer list" where
  "serve rt srv [] = []"
| "serve rt srv (r # rs) =
     (case dispatch rt srv r of (srv', a) \<Rightarrow> a # serve rt srv' rs)"

text \<open>A process that has exited serves nothing.\<close>

fun traffic :: "runtime \<Rightarrow> process \<Rightarrow> incoming list \<Rightarrow> answer list" where
  "traffic rt (Exited c logged) rs = []"
| "traffic rt (Listening srv logged) rs = serve rt srv rs"


section \<open>The fetch library's check of header values\<close>

text \<open>
  \<^verbatim>\<open>node-fetch\<close> (version 2, the one \<^verbatim>\<open>require\<close> can load) checks every header value
  before anything is sent: a value with a character other than a tab or a character from
  0x20 on, 0x7F excluded, makes \<^verbatim>\<open>fetch\<close> reject with a \<^verbatim>\<open>TypeError\<close> whose message begins
  with the value. Only a request that passes goes to the network.
\<close>

definition legal_header_char :: "char \<Rightarrow> bool" where
  "legal_header_char c =
     (let n = (of_char c :: nat) in n = 9 \<or> (32 \<le> n \<and> n < 127) \<or> 128 \<le> n)"

definition node_fetch ::
    "(http_request \<Rightarrow> fetch_outcome) \<Rightarrow> http_request \<Rightarrow> fetch_outcome" where
  "node_fetch network request =
     (case filter (\<lambda>h. \<not> list_all legal_header_char (snd h)) (headers request) of
        [] \<Rightarrow> network request
      | h # hs \<Rightarrow>
          Rejected (JsError ''TypeError'' (snd h @ '' is not a legal HTTP header value'')))"

section \<open>Shapes of a reply\<close>

text \<open>
  The object the system prompt asks the upstream for: five sections under fixed keys,
  each with a text summary and a confidence of high, medium or low.
\<close>

definition confidence_label :: "jsval \<Rightarrow> bool" where
  "confidence_label v = (v = JStr ''high'' \<or> v = JStr ''medium'' \<or> v = JStr ''low'')"

definition is_string :: "jsval \<Rightarrow> bool" where
  "is_string v = (case v of JStr s \<Rightarrow> True | _ \<Rightarrow> False)"

definition story_section :: "jsval \<Rightarrow> bool" where
  "story_section v =
     (case v of
        JObj kvs \<Rightarrow>
          (case map_of kvs ''summary'' of Some s \<Rightarrow> is_string s | None \<Rightarrow> False) \<and>
          (case map_of kvs ''confidence'' of Some c \<Rightarrow> confidence_label c | None \<Rightarrow> False)
      | _ \<Rightarrow> False)"

definition section_keys :: "string list" where
  "section_keys = [''overall_arc'', ''musical_tendencies'', ''era_shifts'',
                   ''venue_geography'', ''distinctive_signature'']"

definition five_section :: "jsval \<Rightarrow> bool" where
  "five_section v =
     (case v of
        JObj kvs \<Rightarrow>
          list_all (\<lambda>k. case map_of kvs k of Some s \<Rightarrow> story_section s | None \<Rightarrow> False)
            section_keys
      | _ \<Rightarrow> False)"

text \<open>An object with the single field \<^verbatim>\<open>error\<close>, holding a string.\<close>

definition error_object :: "jsval \<Rightarrow> bool" where
  "error_object v =
     (case v of
        JObj kvs \<Rightarrow>
          (case kvs of [(k, m)] \<Rightarrow> k = ''error'' \<and> is_string m | _ \<Rightarrow> False)
      | _ \<Rightarrow> False)"

section \<open>A sample runtime and sample upstream replies\<close>

text \<open>
  The examples below need the two built-ins at a few arguments. \<open>sample_runtime\<close>
  tabulates them there: \<^verbatim>\<open>JSON.stringify\<close> on the empty object, on the chat payload
  built from it and on the sample story, \<^verbatim>\<open>JSON.parse\<close> on six texts and on
  \<^verbatim>\<open>undefined\<close>. An argument outside the table is no part of any example.
\<close>

text \<open>How \<^verbatim>\<open>JSON.stringify\<close> writes a string: quoted, with its escapes.\<close>

definition hex_digit :: "nat \<Rightarrow> char" where
  "hex_digit n = ''0123456789abcdef'' ! (n mod 16)"

definition quote_char :: "char \<Rightarrow> string" where
  "quote_char c =
     (let n = (of_char c :: nat) in
      if n = 0x22 then [CHR 0x5C, CHR 0x22]
      else if n = 0x5C then [CHR 0x5C, CHR 0x5C]
      else if n = 8 then [CHR 0x5C, CHR ''b'']
      else if n = 9 then [CHR 0x5C, CHR ''t'']
      else if n = 10 then [CHR 0x5C, CHR ''n'']
      else if n = 12 then [CHR 0x5C, CHR ''f'']
      else if n = 13 then [CHR 0x5C, CHR ''r'']
      else if n < 0x20 then [CHR 0x5C, CHR ''u'', CHR ''0'', CHR ''0'',
                              hex_digit (n div 16), hex_digit n]
      else [c])"

definition quote_json_string :: "string \<Rightarrow> string" where
  "quote_json_string s = CHR 0x22 # concat (map quote_char s) @ [CHR 0x22]"

definition sample_chat_body :: string where
  \<open>sample_chat_body =
     ''{"model":"claude-sonnet-4-20250514","max_tokens":2000,"system":'' @
     quote_json_string SYSTEM_PROMPT @
     '',"messages":[{"role":"user","content":"{}"}]}''\<close>

definition sample_story :: jsval where
  "sample_story =
     JObj [(''title'', JStr ''Your Phish Story''),
           (''overall_arc'',
              JObj [(''summary'', JStr ''Steady''), (''confidence'', JStr ''high'')]),
           (''musical_tendencies'',
              JObj [(''summary'', JStr ''Jams''), (''confidence'', JStr ''medium'')]),
           (''era_shifts'',
              JObj [(''summary'', JStr ''None''), (''confidence'', JStr ''low'')]),
           (''venue_geography'',
              JObj [(''summary'', JStr ''East''), (''confidence'', JStr ''high'')]),
           (''distinctive_signature'',
              JObj [(''summary'', JStr ''Rare''), (''confidence'', JStr ''low'')])]"

definition sample_story_text :: string where
  \<open>sample_story_text =
     ''{"title":"Your Phish Story",'' @
     ''"overall_arc":{"summary":"Steady","confidence":"high"},'' @
     ''"musical_tendencies":{"summary":"Jams","confidence":"medium"},'' @
     ''"era_shifts":{"summary":"None","confidence":"low"},'' @
     ''"venue_geography":{"summary":"East","confidence":"high"},'' @
     ''"distinctive_signature":{"summary":"Rare","confidence":"low"}}''\<close>

text \<open>The same text as a model often ends it: with a line break.\<close>

definition sample_story_line :: string where
  "sample_story_line = sample_story_text @ [CHR 0x0A]"

text \<open>The JSON text of the string \<^verbatim>\<open>abc\<close>: five characters, quotes included.\<close>

definition sample_abc_text :: string where
  "sample_abc_text = [CHR 0x22] @ ''abc'' @ [CHR 0x22]"

text \<open>A request body with something in it, and its JSON text.\<close>

definition sample_shows :: jsval where
  "sample_shows = JObj [(''shows'', JNum 3)]"

definition sample_shows_text :: string where
  \<open>sample_shows_text = ''{"shows":3}''\<close>

definition sample_stringify :: "jsval \<Rightarrow> jsval" where
  "sample_stringify v =
     (if v = JObj [] then JStr ''{}''
      else if v = chat_payload (JStr ''{}'') then JStr sample_chat_body
      else if v = sample_story then JStr sample_story_text
      else JUndefined)"

definition sample_parse :: "jsval \<Rightarrow> js_error + jsval" where
  "sample_parse v =
     (if v = JStr sample_story_text then Inr sample_story
      else if v = JStr sample_story_line then Inr sample_story
      else if v = JStr sample_abc_text then Inr (JStr ''abc'')
      else if v = JStr sample_shows_text then Inr sample_shows
      else if v = JStr ''{}'' then Inr (JObj [])
      else if v = JStr ''Here is your story''
        then Inl (JsError ''SyntaxError'' ''Unexpected token H in JSON at position 0'')
      else if v = JUndefined
        then Inl (JsError ''SyntaxError'' ''Unexpected token u in JSON at position 0'')
      else Inl (JsError ''SyntaxError'' ''Unexpected end of JSON input''))"

definition sample_runtime :: runtime where
  "sample_runtime =
     \<lparr>JSON_stringify = sample_stringify, JSON_parse = sample_parse,
      initial_body = JObj []\<rparr>"

definition sample_server :: server where
  "sample_server = \<lparr>PORT = JNum 3001, ANTHROPIC_API_KEY = ''sk-test''\<rparr>"

text \<open>A key that picked up a line break on its way into the environment.\<close>

definition sample_key_with_break :: string where
  "sample_key_with_break = ''sk-test'' @ [CHR 0x0A]"


text \<open>An upstream that answers every call the same way.\<close>

definition upstream_replies :: "fetch_outcome \<Rightarrow> http_request \<Rightarrow> fetch_outcome" where
  "upstream_replies outcome request = outcome"

text \<open>
  The message the upstream supplies in an error body, \<^verbatim>\<open>{"error": {"message": ...}}\<close>,
  and \<^verbatim>\<open>undefined\<close> when the body has none.
\<close>

definition supplied_message :: "jsval \<Rightarrow> jsval" where
  "supplied_message errorData =
     (case errorData of
        JObj kvs \<Rightarrow>
          (case map_of kvs ''error'' of
             Some (JObj ekvs) \<Rightarrow>
               (case map_of ekvs ''message'' of Some m \<Rightarrow> m | None \<Rightarrow> JUndefined)
           | _ \<Rightarrow> JUndefined)
      | _ \<Rightarrow> JUndefined)"

text \<open>A success reply whose first content block holds the given text.\<close>

definition upstream_text :: "string \<Rightarrow> fetch_response" where
  "upstream_text t =
     \<lparr>status = 200,
      json = Inr (JObj [(''content'',
                JArr [JObj [(''type'', JStr ''text''), (''text'', JStr t)]])])\<rparr>"

text \<open>A success reply with no content block at all.\<close>

definition upstream_no_block :: fetch_response where
  "upstream_no_block = \<lparr>status = 200, json = Inr (JObj [(''content'', JArr [])])\<rparr>"

text \<open>A success reply whose first content block has no text.\<close>

definition upstream_no_text :: fetch_response where
  "upstream_no_text =
     \<lparr>status = 200,
      json = Inr (JObj [(''content'', JArr [JObj [(''type'', JStr ''tool_use'')]])])\<rparr>"

text \<open>The upstream's reply to a bad key: status 401 and its error object.\<close>

definition upstream_401 :: fetch_response where
  "upstream_401 =
     \<lparr>status = 401,
      json = Inr (JObj [(''type'', JStr ''error''),
                (''error'', JObj [(''type'', JStr ''authentication_error''),
                                  (''message'', JStr ''invalid x-api-key'')])])\<rparr>"

text \<open>A 401 whose error object has no message.\<close>

definition upstream_401_bare :: fetch_response where
  "upstream_401_bare = \<lparr>status = 401, json = Inr (JObj [(''type'', JStr ''error'')])\<rparr>"

text \<open>A gateway in front of the upstream answering 502 with an HTML page.\<close>

definition upstream_502_html :: fetch_response where
  "upstream_502_html =
     \<lparr>status = 502,
      json = Inl (JsError ''SyntaxError'' ''Unexpected token < in JSON at position 0'')\<rparr>"

section \<open>Helper facts\<close>




lemma caught_reply:
  "reply (caught logged calls e) =
     \<lparr>status_code = 500,
      payload = JObj [(''error'',
        JStr (if message e = [] then ''Internal server error'' else message e))]\<rparr>"
  by (simp add: caught_def js_or_def)

lemma caught_fetched: "fetched (caught logged calls e) = calls"
  by (simp add: caught_def)

lemma array_index_error: "array_index ''error'' = None"
  by (simp add: array_index_def)

lemma array_index_message: "array_index ''message'' = None"
  by (simp add: array_index_def)

text \<open>
  On a decoded error body other than \<^verbatim>\<open>null\<close> the handler's expression never throws
  and picks the supplied message, or the fallback when that is falsy.
\<close>

lemma upstream_error_message_supplied:
  assumes "errorData \<noteq> JNull" and "errorData \<noteq> JUndefined"
  shows "upstream_error_message errorData =
     Inr (js_or (supplied_message errorData) (JStr ''Claude API request failed''))"
proof (cases errorData)
  case (JObj kvs)
  show ?thesis
  proof (cases "map_of kvs ''error''")
    case None
    with JObj show ?thesis
      by (simp add: upstream_error_message_def supplied_message_def get_prop_opt_def)
  next
    case (Some err)
    with JObj show ?thesis
      by (cases err)
        (simp_all add: upstream_error_message_def supplied_message_def get_prop_opt_def
          array_index_message split: option.splits)
  qed
qed (use assms in \<open>simp_all add: upstream_error_message_def supplied_message_def
      get_prop_opt_def array_index_error\<close>)

lemma upstream_error_message_thrown:
  assumes "upstream_error_message errorData = Inl e"
  shows "errorData = JNull \<or> errorData = JUndefined"
proof (rule ccontr)
  assume "\<not> (errorData = JNull \<or> errorData = JUndefined)"
  then have "errorData \<noteq> JNull" and "errorData \<noteq> JUndefined" by simp_all
  from upstream_error_message_supplied [OF this] assms show False by simp
qed

lemma upstream_error_message_picked:
  assumes "upstream_error_message errorData = Inr m"
  shows "m = js_or (supplied_message errorData) (JStr ''Claude API request failed'')"
proof (cases "errorData = JNull \<or> errorData = JUndefined")
  case True
  with assms show ?thesis
    by (auto simp add: upstream_error_message_def)
next
  case False
  then have "errorData \<noteq> JNull" and "errorData \<noteq> JUndefined" by simp_all
  from upstream_error_message_supplied [OF this] assms show ?thesis by simp
qed

lemma caught_kind:
  "\<exists>text. text \<noteq> [] \<and>
     reply (caught logged calls e) =
       \<lparr>status_code = 500, payload = JObj [(''error'', JStr text)]\<rparr>"
proof (intro exI conjI)
  show "reply (caught logged calls e) =
     \<lparr>status_code = 500,
      payload = JObj [(''error'',
        JStr (if message e = [] then ''Internal server error'' else message e))]\<rparr>"
    by (rule caught_reply)
  show "(if message e = [] then ''Internal server error'' else message e) \<noteq> []"
    by simp
qed

text \<open>The three ways the handler replies.\<close>

lemma reply_kinds:
  "(\<exists>response data story.
       fetch (story_request rt srv req_body) = Resolved response
       \<and> ok response \<and> json response = Inr data
       \<and> parse_story rt data = Inr story
       \<and> reply (generate_story rt srv fetch req_body) =
           \<lparr>status_code = 200, payload = story\<rparr>)
   \<or> (\<exists>text. text \<noteq> []
       \<and> reply (generate_story rt srv fetch req_body) =
           \<lparr>status_code = 500, payload = JObj [(''error'', JStr text)]\<rparr>)
   \<or> (\<exists>response errorData.
       fetch (story_request rt srv req_body) = Resolved response
       \<and> \<not> ok response
       \<and> json response = Inr errorData
       \<and> reply (generate_story rt srv fetch req_body) =
           \<lparr>status_code = status response,
            payload = JObj [(''error'',
              js_or (supplied_message errorData)
                (JStr ''Claude API request failed''))]\<rparr>)"
proof (cases "fetch (story_request rt srv req_body)")
  case (Rejected e)
  then have "reply (generate_story rt srv fetch req_body) =
      reply (caught [ReceivedRequest, UserData req_body] [story_request rt srv req_body] e)"
    by (simp add: generate_story_def)
  with caught_kind show ?thesis by simp
next
  case (Resolved response)
  show ?thesis
  proof (cases "json response")
    case (Inl e)
    with Resolved have "reply (generate_story rt srv fetch req_body) =
        reply (caught [ReceivedRequest, UserData req_body, UpstreamStatus (status response)]
          [story_request rt srv req_body] e)"
      by (cases "ok response") (simp_all add: generate_story_def)
    with caught_kind show ?thesis by simp
  next
    case (Inr decoded)
    show ?thesis
    proof (cases "ok response")
      case True
      show ?thesis
      proof (cases "parse_story rt decoded")
        case (Inl e)
        with Resolved Inr True have "reply (generate_story rt srv fetch req_body) =
            reply (caught [ReceivedRequest, UserData req_body,
              UpstreamStatus (status response), UpstreamSuccess]
              [story_request rt srv req_body] e)"
          by (simp add: generate_story_def)
        with caught_kind show ?thesis by simp
      next
        case (Inr story)
        with Resolved \<open>json response = Inr decoded\<close> True show ?thesis
          by (simp add: generate_story_def)
      qed
    next
      case False
      show ?thesis
      proof (cases "upstream_error_message decoded")
        case (Inl e)
        with Resolved Inr False have "reply (generate_story rt srv fetch req_body) =
            reply (caught [ReceivedRequest, UserData req_body,
              UpstreamStatus (status response), UpstreamError decoded]
              [story_request rt srv req_body] e)"
          by (simp add: generate_story_def)
        with caught_kind show ?thesis by simp
      next
        case (Inr m)
        from upstream_error_message_picked [OF this] Inr Resolved
          \<open>json response = Inr decoded\<close> False
        show ?thesis
          by (simp add: generate_story_def)
      qed
    qed
  qed
qed



section \<open>The story route\<close>







text \<open>
  C3, as the spec has it, fails: a non-success status is not always passed on. A 502
  whose body is an HTML page is answered with 500 and the decoder's message.
\<close>

theorem upstream_status_relayed_counterexample:
  "\<not> ok upstream_502_html
   \<and> status upstream_502_html = 502
   \<and> reply (generate_story sample_runtime sample_server
        (upstream_replies (Resolved upstream_502_html)) (JObj []))
      = \<lparr>status_code = 500,
         payload = JObj [(''error'', JStr ''Unexpected token < in JSON at position 0'')]\<rparr>"
  by (simp add: generate_story_def upstream_replies_def upstream_502_html_def ok_def
      caught_reply)

text \<open>
  C3, amended. When the upstream answers with a non-success status and its error body
  decodes as JSON to a value other than \<^verbatim>\<open>null\<close>, the caller gets that same status and
  an object whose \<^verbatim>\<open>error\<close> field is the message the upstream supplied, or the fallback
  text when it supplied none (or a falsy one).
\<close>

theorem upstream_error_relayed:
  assumes "fetch (story_request rt srv req_body) = Resolved response"
    and "\<not> ok response"
    and "json response = Inr errorData"
    and "errorData \<noteq> JNull"
    and "errorData \<noteq> JUndefined"
  shows "reply (generate_story rt srv fetch req_body) =
     \<lparr>status_code = status response,
      payload = JObj [(''error'',
        js_or (supplied_message errorData) (JStr ''Claude API request failed''))]\<rparr>"
  using assms by (simp add: generate_story_def upstream_error_message_supplied)

theorem upstream_error_relayed_witness:
  "reply (generate_story sample_runtime sample_server
      (upstream_replies (Resolved upstream_401)) (JObj []))
     = \<lparr>status_code = 401, payload = JObj [(''error'', JStr ''invalid x-api-key'')]\<rparr>
   \<and> reply (generate_story sample_runtime sample_server
      (upstream_replies (Resolved upstream_401_bare)) (JObj []))
     = \<lparr>status_code = 401, payload = JObj [(''error'', JStr ''Claude API request failed'')]\<rparr>"
proof -
  have full: "reply (generate_story sample_runtime sample_server
      (upstream_replies (Resolved upstream_401)) (JObj []))
     = \<lparr>status_code = 401, payload = JObj [(''error'', JStr ''invalid x-api-key'')]\<rparr>"
    using upstream_error_relayed [where fetch = "upstream_replies (Resolved upstream_401)"
        and rt = sample_runtime and srv = sample_server and req_body = "JObj []"
        and response = upstream_401
        and errorData = "JObj [(''type'', JStr ''error''),
          (''error'', JObj [(''type'', JStr ''authentication_error''),
                           (''message'', JStr ''invalid x-api-key'')])]"]
    by (simp add: upstream_replies_def upstream_401_def ok_def supplied_message_def js_or_def)
  have bare: "reply (generate_story sample_runtime sample_server
      (upstream_replies (Resolved upstream_401_bare)) (JObj []))
     = \<lparr>status_code = 401, payload = JObj [(''error'', JStr ''Claude API request failed'')]\<rparr>"
    using upstream_error_relayed [where fetch = "upstream_replies (Resolved upstream_401_bare)"
        and rt = sample_runtime and srv = sample_server and req_body = "JObj []"
        and response = upstream_401_bare
        and errorData = "JObj [(''type'', JStr ''error'')]"]
    by (simp add: upstream_replies_def upstream_401_bare_def ok_def supplied_message_def
        js_or_def)
  from full bare show ?thesis by simp
qed

text \<open>
  C4. When the upstream answers with a success status but the story cannot be read
  from it (the body is not JSON, the content block is missing, or its text is not
  JSON), the error is caught: the caller gets status 500 and an \<^verbatim>\<open>error\<close> text that is
  never empty and is the caught error's message whenever that message is not empty (the
  runtime's errors all carry one). The upstream was called once and is not called again.
\<close>

theorem malformed_success_body_gives_500:
  assumes "fetch (story_request rt srv req_body) = Resolved response"
    and "ok response"
    and "json response = Inl e
         \<or> (\<exists>data. json response = Inr data \<and> parse_story rt data = Inl e)"
  shows "reply (generate_story rt srv fetch req_body) =
           \<lparr>status_code = 500,
            payload = JObj [(''error'',
              JStr (if message e = [] then ''Internal server error'' else message e))]\<rparr>
         \<and> (if message e = [] then ''Internal server error'' else message e) \<noteq> []
         \<and> (message e \<noteq> [] \<longrightarrow>
              payload (reply (generate_story rt srv fetch req_body)) =
                JObj [(''error'', JStr (message e))])
         \<and> fetched (generate_story rt srv fetch req_body) = [story_request rt srv req_body]"
  using assms by (auto simp add: generate_story_def caught_reply caught_fetched)

theorem malformed_success_body_gives_500_witness:
  "reply (generate_story sample_runtime sample_server
      (upstream_replies (Resolved (upstream_text ''Here is your story''))) (JObj []))
     = \<lparr>status_code = 500,
        payload = JObj [(''error'', JStr ''Unexpected token H in JSON at position 0'')]\<rparr>
   \<and> reply (generate_story sample_runtime sample_server
      (upstream_replies (Resolved upstream_no_block)) (JObj []))
     = \<lparr>status_code = 500,
        payload = JObj [(''error'', JStr ''Cannot read properties of undefined (reading 'text')'')]\<rparr>
   \<and> reply (generate_story sample_runtime sample_server
      (upstream_replies (Resolved upstream_no_text)) (JObj []))
     = \<lparr>status_code = 500,
        payload = JObj [(''error'', JStr ''Unexpected token u in JSON at position 0'')]\<rparr>"
proof -
  have not_json: "reply (generate_story sample_runtime sample_server
      (upstream_replies (Resolved (upstream_text ''Here is your story''))) (JObj []))
     = \<lparr>status_code = 500,
        payload = JObj [(''error'', JStr ''Unexpected token H in JSON at position 0'')]\<rparr>"
    using malformed_success_body_gives_500
      [where fetch = "upstream_replies (Resolved (upstream_text ''Here is your story''))"
        and rt = sample_runtime and srv = sample_server and req_body = "JObj []"
        and response = "upstream_text ''Here is your story''"
        and e = "JsError ''SyntaxError'' ''Unexpected token H in JSON at position 0''"]
    by (simp add: upstream_replies_def upstream_text_def ok_def parse_story_def
        first_block_text_def array_index_def sample_runtime_def sample_parse_def
        sample_story_text_def sample_story_line_def sample_abc_text_def
        sample_shows_text_def)
  have no_block: "reply (generate_story sample_runtime sample_server
      (upstream_replies (Resolved upstream_no_block)) (JObj []))
     = \<lparr>status_code = 500,
        payload = JObj [(''error'', JStr ''Cannot read properties of undefined (reading 'text')'')]\<rparr>"
    using malformed_success_body_gives_500
      [where fetch = "upstream_replies (Resolved upstream_no_block)"
        and rt = sample_runtime and srv = sample_server and req_body = "JObj []"
        and response = upstream_no_block
        and e = "cannot_read ''undefined'' ''text''"]
    by (simp add: upstream_replies_def upstream_no_block_def ok_def parse_story_def
        first_block_text_def array_index_def cannot_read_def)
  have no_text: "reply (generate_story sample_runtime sample_server
      (upstream_replies (Resolved upstream_no_text)) (JObj []))
     = \<lparr>status_code = 500,
        payload = JObj [(''error'', JStr ''Unexpected token u in JSON at position 0'')]\<rparr>"
    using malformed_success_body_gives_500
      [where fetch = "upstream_replies (Resolved upstream_no_text)"
        and rt = sample_runtime and srv = sample_server and req_body = "JObj []"
        and response = upstream_no_text
        and e = "JsError ''SyntaxError'' ''Unexpected token u in JSON at position 0''"]
    by (simp add: upstream_replies_def upstream_no_text_def ok_def parse_story_def
        first_block_text_def array_index_def sample_runtime_def sample_parse_def)
  from not_json no_block no_text show ?thesis by simp
qed

text \<open>
  C9. When the upstream answers with a non-success status and its error body is not
  JSON, decoding the body throws, and the caller gets status 500 with the decoder's
  message (the fallback text if that message were empty), whatever the upstream's
  status was.
\<close>

theorem undecodable_error_body_gives_500:
  assumes "fetch (story_request rt srv req_body) = Resolved response"
    and "\<not> ok response"
    and "json response = Inl e"
  shows "reply (generate_story rt srv fetch req_body) =
           \<lparr>status_code = 500,
            payload = JObj [(''error'',
              JStr (if message e = [] then ''Internal server error'' else message e))]\<rparr>
         \<and> (message e \<noteq> [] \<longrightarrow>
              reply (generate_story rt srv fetch req_body) =
                \<lparr>status_code = 500, payload = JObj [(''error'', JStr (message e))]\<rparr>)"
  using assms by (simp add: generate_story_def caught_reply)

theorem undecodable_error_body_gives_500_witness:
  "status upstream_502_html = 502
   \<and> reply (generate_story sample_runtime sample_server
        (upstream_replies (Resolved upstream_502_html)) (JObj []))
      = \<lparr>status_code = 500,
         payload = JObj [(''error'', JStr ''Unexpected token < in JSON at position 0'')]\<rparr>"
  using undecodable_error_body_gives_500
    [where fetch = "upstream_replies (Resolved upstream_502_html)"
      and rt = sample_runtime and srv = sample_server and req_body = "JObj []"
      and response = upstream_502_html
      and e = "JsError ''SyntaxError'' ''Unexpected token < in JSON at position 0''"]
  by (simp add: upstream_replies_def upstream_502_html_def ok_def)

text \<open>
  C6, as the spec has it, fails. The value sent with status 200 is whatever the block's
  text parses to: an upstream whose text is \<^verbatim>\<open>{}\<close> gets the empty object passed on with
  status 200, which is neither a five-section story nor an error reply. And a body the
  parser refuses is answered with Express's error page, which is neither.
\<close>

theorem story_or_error_counterexample:
  "api_generate_story sample_runtime sample_server
      (upstream_replies (Resolved (upstream_text ''{}''))) (JsonText ''{}'')
     = Handled (generate_story sample_runtime sample_server
         (upstream_replies (Resolved (upstream_text ''{}''))) (JObj []))
   \<and> reply (generate_story sample_runtime sample_server
      (upstream_replies (Resolved (upstream_text ''{}''))) (JObj []))
     = \<lparr>status_code = 200, payload = JObj []\<rparr>
   \<and> \<not> five_section (JObj [])
   \<and> \<not> error_object (JObj [])
   \<and> api_generate_story sample_runtime sample_server
      (upstream_replies (Resolved (upstream_text ''{}''))) (JsonText sample_abc_text)
     = ErrorPage 400"
proof -
  have parsed: "JSON_parse sample_runtime (JStr ''{}'') = Inr (JObj [])"
    by (simp add: sample_runtime_def sample_parse_def sample_story_text_def
        sample_story_line_def sample_abc_text_def sample_shows_text_def)
  have routed: "api_generate_story sample_runtime sample_server
      (upstream_replies (Resolved (upstream_text ''{}''))) (JsonText ''{}'')
     = Handled (generate_story sample_runtime sample_server
         (upstream_replies (Resolved (upstream_text ''{}''))) (JObj []))"
    using parsed by (simp add: api_generate_story_def firstchar_def)
  have replied: "reply (generate_story sample_runtime sample_server
      (upstream_replies (Resolved (upstream_text ''{}''))) (JObj []))
     = \<lparr>status_code = 200, payload = JObj []\<rparr>"
    using parsed
    by (simp add: generate_story_def upstream_replies_def upstream_text_def ok_def
        parse_story_def first_block_text_def array_index_def)
  have neither: "\<not> five_section (JObj [])" "\<not> error_object (JObj [])"
    by (simp_all add: five_section_def section_keys_def error_object_def)
  have refused: "api_generate_story sample_runtime sample_server
      (upstream_replies (Resolved (upstream_text ''{}''))) (JsonText sample_abc_text)
     = ErrorPage 400"
    by (simp add: api_generate_story_def firstchar_def sample_abc_text_def)
  from routed replied neither refused show ?thesis by simp
qed

text \<open>
  C6, amended. Every answer of the story route is of one of four kinds: Express's error
  page with the status the body parser settled on, when the parser refuses the body;
  status 200 with the value parsed from the first content block of a successful upstream
  answer, whatever its shape; status 500 with an object whose single field \<^verbatim>\<open>error\<close>
  holds a non-empty string; or the non-success status the upstream answered with and an
  object whose single field \<^verbatim>\<open>error\<close> holds the message of the upstream's error body
  when that is truthy, of whatever type, and the fallback string otherwise.
\<close>

theorem story_or_error_object:
  "(\<exists>code. express_json rt arrived = Inl code
        \<and> api_generate_story rt srv fetch arrived = ErrorPage code)
   \<or> (\<exists>req_body. express_json rt arrived = Inr req_body
        \<and> api_generate_story rt srv fetch arrived =
            Handled (generate_story rt srv fetch req_body)
        \<and> ((\<exists>response data story.
               fetch (story_request rt srv req_body) = Resolved response
               \<and> ok response \<and> json response = Inr data
               \<and> parse_story rt data = Inr story
               \<and> reply (generate_story rt srv fetch req_body) =
                   \<lparr>status_code = 200, payload = story\<rparr>)
           \<or> (\<exists>text. text \<noteq> []
               \<and> reply (generate_story rt srv fetch req_body) =
                   \<lparr>status_code = 500, payload = JObj [(''error'', JStr text)]\<rparr>)
           \<or> (\<exists>response errorData.
               fetch (story_request rt srv req_body) = Resolved response
               \<and> \<not> ok response
               \<and> json response = Inr errorData
               \<and> reply (generate_story rt srv fetch req_body) =
                   \<lparr>status_code = status response,
                    payload = JObj [(''error'',
                      js_or (supplied_message errorData)
                        (JStr ''Claude API request failed''))]\<rparr>)))"
proof (cases "express_json rt arrived")
  case (Inl code)
  then show ?thesis by (simp add: api_generate_story_def)
next
  case (Inr req_body)
  with reply_kinds [of fetch rt srv req_body] show ?thesis
    by (simp add: api_generate_story_def)
qed

theorem story_or_error_object_witness:
  "api_generate_story sample_runtime sample_server
      (upstream_replies (Resolved upstream_401)) (JsonText ''{}'')
     = Handled (generate_story sample_runtime sample_server
         (upstream_replies (Resolved upstream_401)) (JObj []))
   \<and> reply (generate_story sample_runtime sample_server
        (upstream_replies (Resolved upstream_401)) (JObj []))
      = \<lparr>status_code = 401, payload = JObj [(''error'', JStr ''invalid x-api-key'')]\<rparr>"
proof -
  have accepted: "express_json sample_runtime (JsonText ''{}'') = Inr (JObj [])"
    by (simp add: firstchar_def sample_runtime_def sample_parse_def sample_story_text_def
        sample_story_line_def sample_abc_text_def sample_shows_text_def)
  have replied: "reply (generate_story sample_runtime sample_server
        (upstream_replies (Resolved upstream_401)) (JObj []))
      = \<lparr>status_code = 401, payload = JObj [(''error'', JStr ''invalid x-api-key'')]\<rparr>"
    by (simp add: generate_story_def upstream_replies_def upstream_401_def ok_def
        upstream_error_message_def get_prop_opt_def js_or_def)
  from accepted replied
    story_or_error_object [where rt = sample_runtime and srv = sample_server
      and arrived = "JsonText ''{}''"
      and fetch = "upstream_replies (Resolved upstream_401)"]
  show ?thesis by (simp add: api_generate_story_def)
qed

section \<open>Start-up\<close>

text \<open>
  C5. When the key is absent from the environment the module reads, the process logs
  its two error lines and exits with code 1. It never reaches \<^verbatim>\<open>app.listen\<close>, so it
  is not listening and answers no request.
\<close>

theorem no_key_no_server:
  assumes "process_env ''ANTHROPIC_API_KEY'' = None"
  shows "main process_env = Exited 1 [KeyNotSet, CreateEnvFile]
         \<and> traffic rt (main process_env) requests = []"
  using assms by (simp add: main_def env_var_def Let_def)

theorem no_key_no_server_witness:
  "main (Map.empty(''PORT'' \<mapsto> ''8080'')) = Exited 1 [KeyNotSet, CreateEnvFile]
   \<and> traffic sample_runtime (main (Map.empty(''PORT'' \<mapsto> ''8080'')))
        [GetHealth,
         PostGenerateStory (JsonText ''{}'') (upstream_replies (Resolved upstream_401))] = []"
proof -
  have absent: "(Map.empty(''PORT'' \<mapsto> ''8080'')) ''ANTHROPIC_API_KEY'' = None"
    by simp
  from no_key_no_server [where process_env = "Map.empty(''PORT'' \<mapsto> ''8080'')", OF absent]
  show ?thesis by simp
qed

section \<open>The health route and the server as a whole\<close>






section \<open>The key\<close>

text \<open>
  C10. The claim is what the file's own header promises ("without exposing your API
  key"), and the code breaks it. The key goes into the \<^verbatim>\<open>x-api-key\<close> header; when it is
  not a legal header value (here it ends with a line break), \<^verbatim>\<open>fetch\<close> rejects with a
  message that begins with the value, and the \<^verbatim>\<open>catch\<close> block sends that message to the
  caller. With the same request body and the same upstream, a legal key gives the story
  and this key gives a reply that spells the key out.
\<close>

theorem key_echoed_to_caller:
  "main (Map.empty(''ANTHROPIC_API_KEY'' \<mapsto> sample_key_with_break)) =
     Listening \<lparr>PORT = JNum 3001, ANTHROPIC_API_KEY = sample_key_with_break\<rparr>
       [Banner (JNum 3001)]
   \<and> reply (generate_story sample_runtime
        \<lparr>PORT = JNum 3001, ANTHROPIC_API_KEY = sample_key_with_break\<rparr>
        (node_fetch (upstream_replies (Resolved (upstream_text sample_story_text))))
        (JObj []))
      = \<lparr>status_code = 500,
         payload = JObj [(''error'',
           JStr (sample_key_with_break @ '' is not a legal HTTP header value''))]\<rparr>
   \<and> reply (generate_story sample_runtime
        \<lparr>PORT = JNum 3001, ANTHROPIC_API_KEY = ''sk-test''\<rparr>
        (node_fetch (upstream_replies (Resolved (upstream_text sample_story_text))))
        (JObj []))
      = \<lparr>status_code = 200, payload = sample_story\<rparr>"
proof -
  have started: "main (Map.empty(''ANTHROPIC_API_KEY'' \<mapsto> sample_key_with_break)) =
     Listening \<lparr>PORT = JNum 3001, ANTHROPIC_API_KEY = sample_key_with_break\<rparr>
       [Banner (JNum 3001)]"
    by (simp add: main_def env_var_def js_or_def Let_def sample_key_with_break_def)
  have rejected: "node_fetch (upstream_replies (Resolved (upstream_text sample_story_text)))
      (story_request sample_runtime
        \<lparr>PORT = JNum 3001, ANTHROPIC_API_KEY = sample_key_with_break\<rparr> (JObj []))
     = Rejected (JsError ''TypeError''
         (sample_key_with_break @ '' is not a legal HTTP header value''))"
    by (simp add: node_fetch_def story_request_def legal_header_char_def
        sample_key_with_break_def)
  have passed: "node_fetch (upstream_replies (Resolved (upstream_text sample_story_text)))
      (story_request sample_runtime
        \<lparr>PORT = JNum 3001, ANTHROPIC_API_KEY = ''sk-test''\<rparr> (JObj []))
     = Resolved (upstream_text sample_story_text)"
    by (simp add: node_fetch_def story_request_def legal_header_char_def
        upstream_replies_def)
  have echoed: "reply (generate_story sample_runtime
        \<lparr>PORT = JNum 3001, ANTHROPIC_API_KEY = sample_key_with_break\<rparr>
        (node_fetch (upstream_replies (Resolved (upstream_text sample_story_text))))
        (JObj []))
      = \<lparr>status_code = 500,
         payload = JObj [(''error'',
           JStr (sample_key_with_break @ '' is not a legal HTTP header value''))]\<rparr>"
    using rejected by (simp add: generate_story_def caught_reply sample_key_with_break_def)
  have story: "reply (generate_story sample_runtime
        \<lparr>PORT = JNum 3001, ANTHROPIC_API_KEY = ''sk-test''\<rparr>
        (node_fetch (upstream_replies (Resolved (upstream_text sample_story_text))))
        (JObj []))
      = \<lparr>status_code = 200, payload = sample_story\<rparr>"
    using passed
    by (simp add: generate_story_def upstream_text_def ok_def parse_story_def
        first_block_text_def array_index_def sample_runtime_def sample_parse_def)
  from started echoed story show ?thesis by simp
qed

end
